theory Spec2Isabelle
  imports Main "HOL-Library.Word" "HOL-Library.AList"
begin

section \<open>go-valid: tag-driven validation of decoded request fields\<close>

text \<open>
  The package has one exported function, \<open>Validate\<close>, and two helpers,
  \<open>decodeTagFields\<close> and \<open>setDefaultValue\<close>. \<open>Validate\<close> walks the fields of
  a destination struct in declaration order; for every field that carries a
  \<open>validate\<close> struct tag it parses the tag, looks the field's external name up in
  the input mapping, decodes the raw value (or applies the default), and then
  ranges over the remaining tag clauses.

  The embedding follows the later of the two revisions of the file (the one
  with \<open>min\<close>, \<open>max\<close>, \<open>minLen\<close>, \<open>maxLen\<close>, \<open>default\<close> and \<open>oneof\<close>).
  Go's \<open>panic\<close> is an outcome of its own, distinct from a returned
  \<open>*ValidateError\<close>. Integers are 64-bit words, Go's \<open>int\<close> is taken at its
  64-bit width (amd64, arm64).
\<close>

subsection \<open>Constants\<close>

definition TAG_FIELD_NAME :: string where "TAG_FIELD_NAME = ''name''"
definition TAG_FIELD_REQUIRED :: string where "TAG_FIELD_REQUIRED = ''required''"
definition TAG_FIELD_MAX :: string where "TAG_FIELD_MAX = ''max''"
definition TAG_FIELD_MIN :: string where "TAG_FIELD_MIN = ''min''"
definition TAG_FIELD_MAX_LEN :: string where "TAG_FIELD_MAX_LEN = ''maxLen''"
definition TAG_FIELD_MIN_LEN :: string where "TAG_FIELD_MIN_LEN = ''minLen''"
definition TAG_FIELD_DEFAULT :: string where "TAG_FIELD_DEFAULT = ''default''"
definition TAG_FIELD_ONE_OF :: string where "TAG_FIELD_ONE_OF = ''oneof''"

text \<open>The error codes are an \<open>iota\<close> block: consecutive integers from 0.\<close>

definition VALIDATE_ERR_CODE_UNKNOWN :: nat where "VALIDATE_ERR_CODE_UNKNOWN = 0"
definition VALIDATE_ERR_CODE_MISSING_REQ_PARAM :: nat where "VALIDATE_ERR_CODE_MISSING_REQ_PARAM = 1"
definition VALIDATE_ERR_CODE_UNPARSABLE :: nat where "VALIDATE_ERR_CODE_UNPARSABLE = 2"
definition VALIDATE_ERR_CODE_TOO_LONG :: nat where "VALIDATE_ERR_CODE_TOO_LONG = 3"
definition VALIDATE_ERR_CODE_TOO_SHORT :: nat where "VALIDATE_ERR_CODE_TOO_SHORT = 4"
definition VALIDATE_ERR_CODE_TOO_BIG :: nat where "VALIDATE_ERR_CODE_TOO_BIG = 5"
definition VALIDATE_ERR_CODE_TOO_SMALL :: nat where "VALIDATE_ERR_CODE_TOO_SMALL = 6"
definition VALIDATE_ERR_CODE_INVALID :: nat where "VALIDATE_ERR_CODE_INVALID = 7"

subsection \<open>Data\<close>

text \<open>
  \<open>reflect.Kind\<close>, in the order of the Go declaration (without \<open>Invalid\<close>, which
  no struct field has).
\<close>

datatype kind =
    KBool | KInt | KInt8 | KInt16 | KInt32 | KInt64
  | KUint | KUint8 | KUint16 | KUint32 | KUint64 | KUintptr
  | KFloat32 | KFloat64 | KComplex64 | KComplex128
  | KArray | KChan | KFunc | KInterface | KMap | KPtr | KSlice
  | KString | KStruct | KUnsafePointer

text \<open>
  The kinds the package never reads or writes a value of. A field of such a
  kind is carried only with its kind.
\<close>

datatype opaque =
    OBool | OUintptr | OComplex64 | OComplex128 | OArray | OChan | OFunc
  | OInterface | OMap | OPtr | OSlice | OStruct | OUnsafePointer

text \<open>
  A field's storage (\<open>reflect.Value\<close> of the field): the value together with
  its static type, so that \<open>Kind\<close> is read off the value as reflection does.
  The type \<open>'f\<close> stands for IEEE floating-point numbers, which the package
  only obtains from \<open>strconv.ParseFloat\<close> and the decoder and only compares.
\<close>

datatype 'f rvalue =
    VInt "64 word" | VInt8 "8 word" | VInt16 "16 word" | VInt32 "32 word" | VInt64 "64 word"
  | VUint "64 word" | VUint8 "8 word" | VUint16 "16 word" | VUint32 "32 word" | VUint64 "64 word"
  | VFloat32 'f | VFloat64 'f
  | VString string
  | VOpaque opaque

fun opaqueKind :: "opaque \<Rightarrow> kind" where
  "opaqueKind OBool = KBool"
| "opaqueKind OUintptr = KUintptr"
| "opaqueKind OComplex64 = KComplex64"
| "opaqueKind OComplex128 = KComplex128"
| "opaqueKind OArray = KArray"
| "opaqueKind OChan = KChan"
| "opaqueKind OFunc = KFunc"
| "opaqueKind OInterface = KInterface"
| "opaqueKind OMap = KMap"
| "opaqueKind OPtr = KPtr"
| "opaqueKind OSlice = KSlice"
| "opaqueKind OStruct = KStruct"
| "opaqueKind OUnsafePointer = KUnsafePointer"

fun Kind :: "'f rvalue \<Rightarrow> kind" where
  "Kind (VInt _) = KInt"
| "Kind (VInt8 _) = KInt8"
| "Kind (VInt16 _) = KInt16"
| "Kind (VInt32 _) = KInt32"
| "Kind (VInt64 _) = KInt64"
| "Kind (VUint _) = KUint"
| "Kind (VUint8 _) = KUint8"
| "Kind (VUint16 _) = KUint16"
| "Kind (VUint32 _) = KUint32"
| "Kind (VUint64 _) = KUint64"
| "Kind (VFloat32 _) = KFloat32"
| "Kind (VFloat64 _) = KFloat64"
| "Kind (VString _) = KString"
| "Kind (VOpaque k) = opaqueKind k"

text \<open>
  The text of an \<open>error\<close> value: the messages \<open>Validate\<close> builds with
  \<open>fmt.Errorf\<close>, kept as format and arguments, and the decoder's own error.
  The bound of \<open>min\<close>/\<open>max\<close> is an \<open>interface{}\<close> holding an \<open>int64\<close>,
  a \<open>uint64\<close> or a \<open>float64\<close>.
\<close>

datatype 'f bound = BoundInt "64 word" | BoundUint "64 word" | BoundFloat 'f

datatype 'f errtext =
    ErrRequired string
  | ErrTooSmall string "'f bound"
  | ErrTooBig string "'f bound"
  | ErrTooLong string "64 word"
  | ErrTooShort string "64 word"
  | ErrDecode string

record 'f ValidateError =
  Code :: nat
  ParamName :: string
  OriginalError :: "'f errtext option"

record FieldValidationParams =
  Name :: string
  Required :: bool
  Fields :: "(string \<times> string) list"

text \<open>Every \<open>panic\<close> call of the file, with the arguments of its message.\<close>

datatype panic =
    NotAPointer
  | NilPointer
  | NotAStruct
  | EmptyTag string
  | EmptyTagField
  | TagFieldAlreadyDefined string
  | TagFieldEmpty string
  | TagFieldUnknownValue string
  | UnparsableSigned string
  | UnparsableUnsigned string
  | UnparsableFloat string
  | NotIntegerOrFloat string string
  | NotAString string string
  | UnparsableLength string
  | UnknownTagField string
  | UnparsableDefault kind string
  | UnsupportedKind kind

text \<open>
  How a step ends: it falls through to the next iteration (for \<open>Validate\<close>
  itself: \<open>return nil\<close>), it returns a \<open>*ValidateError\<close>, or it panics.
\<close>

datatype 'f outcome = Ok | Failed "'f ValidateError" | Panic panic

subsection \<open>Library functions of Go the package calls\<close>

text \<open>\<open>strings.Split(s, ",")\<close>: never empty, \<open>[""]\<close> on the empty string.\<close>

fun Split :: "string \<Rightarrow> char \<Rightarrow> string list" where
  "Split [] sep = [] # []"
| "Split (c # cs) sep =
     (if c = sep then [] # Split cs sep
      else (case Split cs sep of [] \<Rightarrow> [c] # [] | w # ws \<Rightarrow> (c # w) # ws))"

text \<open>
  \<open>strings.SplitN(v, "=", 2)\<close>: one element when \<open>v\<close> has no \<open>=\<close>, otherwise
  the text before the first \<open>=\<close> and the whole text after it.
\<close>

definition SplitN2 :: "string \<Rightarrow> string list" where
  "SplitN2 v =
     (if CHR ''='' \<in> set v
      then [takeWhile (\<lambda>c. c \<noteq> CHR ''='') v, tl (dropWhile (\<lambda>c. c \<noteq> CHR ''='') v)]
      else [v])"

text \<open>Decimal digits, as \<open>strconv\<close> reads them in base 10.\<close>

definition isDigit :: "char \<Rightarrow> bool" where
  "isDigit c = (48 \<le> (of_char c :: nat) \<and> (of_char c :: nat) \<le> 57)"

fun digitsValue :: "int \<Rightarrow> string \<Rightarrow> int" where
  "digitsValue acc [] = acc"
| "digitsValue acc (c # cs) = digitsValue (acc * 10 + (of_char c - 48)) cs"

text \<open>
  \<open>strconv.ParseUint(s, 10, 64)\<close>: a non-empty run of digits whose value fits
  64 bits; \<open>None\<close> stands for a non-nil \<open>err\<close> (syntax or range).
\<close>

definition ParseUint :: "string \<Rightarrow> 64 word option" where
  "ParseUint s =
     (if s = [] \<or> \<not> list_all isDigit s then None
      else if digitsValue 0 s < 2 ^ 64 then Some (of_int (digitsValue 0 s))
      else None)"

text \<open>
  \<open>strconv.ParseInt(s, 10, 64)\<close>: an optional sign, then as \<open>ParseUint\<close>, with
  the magnitude at most \<open>2^63 - 1\<close>, or \<open>2^63\<close> after a minus sign.
\<close>

definition ParseInt :: "string \<Rightarrow> 64 word option" where
  "ParseInt s =
     (case s of
        [] \<Rightarrow> None
      | c # cs \<Rightarrow>
          (let neg = (c = CHR ''-'');
               ds = (if c = CHR ''+'' \<or> c = CHR ''-'' then cs else s)
           in if ds = [] \<or> \<not> list_all isDigit ds then None
              else if \<not> neg \<and> digitsValue 0 ds \<ge> 2 ^ 63 then None
              else if neg \<and> digitsValue 0 ds > 2 ^ 63 then None
              else Some (if neg then of_int (- digitsValue 0 ds) else of_int (digitsValue 0 ds))))"

subsection \<open>The tag parser\<close>

text \<open>
  The loop of \<open>decodeTagFields\<close> over the clauses, with the two locals it
  updates: \<open>vParams\<close> and the \<open>seen\<close> map. \<open>vParams.Fields\<close> is a Go map; it
  is kept as an association list with at most one entry per key, so that it can
  be ranged over.
\<close>

fun decodeLoop ::
  "string list \<Rightarrow> FieldValidationParams \<Rightarrow> (string \<rightharpoonup> bool) \<Rightarrow> panic + FieldValidationParams"
where
  "decodeLoop [] vParams seen = Inr vParams"
| "decodeLoop (v # vs) vParams seen =
     (let splitRes = SplitN2 v in
      if hd splitRes = [] then Inl EmptyTagField
      else
        let tagFieldValue = (if length splitRes = 2 then splitRes ! 1 else []) in
        if seen (hd splitRes) \<noteq> None then Inl (TagFieldAlreadyDefined (hd splitRes))
        else
          let seen' = seen(hd splitRes \<mapsto> True) in
          if hd splitRes = TAG_FIELD_NAME then
            (if tagFieldValue = [] then Inl (TagFieldEmpty TAG_FIELD_NAME)
             else decodeLoop vs (vParams\<lparr>Name := tagFieldValue\<rparr>) seen')
          else if hd splitRes = TAG_FIELD_REQUIRED then
            (if tagFieldValue = [] \<or> tagFieldValue = ''true'' then
               decodeLoop vs (vParams\<lparr>Required := True\<rparr>) seen'
             else if tagFieldValue = ''false'' then
               decodeLoop vs (vParams\<lparr>Required := False\<rparr>) seen'
             else Inl (TagFieldUnknownValue TAG_FIELD_REQUIRED))
          else
            decodeLoop vs
              (vParams\<lparr>Fields := AList.update (hd splitRes) tagFieldValue (Fields vParams)\<rparr>) seen')"

definition decodeTagFields :: "string list \<Rightarrow> panic + FieldValidationParams" where
  "decodeTagFields tagFieldsRaw =
     decodeLoop tagFieldsRaw \<lparr>Name = [], Required = False, Fields = []\<rparr> Map.empty"

subsection \<open>What the package takes from its environment\<close>

text \<open>
  Three things are not code of the package: the decoder \<open>json.Unmarshal\<close>,
  which receives the raw value and a pointer to the field and leaves a value
  and possibly an error; \<open>strconv.ParseFloat\<close> with the order of floats; and
  the order in which a \<open>range\<close> over a map visits its entries, which Go leaves
  open and changes from one loop to the next. They are the parameters of the
  model. \<open>rangeOrder\<close> receives the index of the struct field whose clauses
  are ranged over.
\<close>

record ('r, 'f) runtime =
  Unmarshal :: "'r \<Rightarrow> 'f rvalue \<Rightarrow> 'f rvalue \<times> string option"
  ParseFloat :: "string \<Rightarrow> nat \<Rightarrow> 'f option"
  floatLess :: "'f \<Rightarrow> 'f \<Rightarrow> bool"
  rangeOrder :: "nat \<Rightarrow> (string \<times> string) list \<Rightarrow> (string \<times> string) list"

subsection \<open>Defaults\<close>

text \<open>
  \<open>setDefaultValue\<close> switches on the kind of the field and writes the parsed
  text into it; the result is the field's new content, or the panic.
\<close>

definition setDefaultValue ::
  "('r, 'f) runtime \<Rightarrow> 'f rvalue \<Rightarrow> string \<Rightarrow> panic + 'f rvalue"
where
  "setDefaultValue rt field rawValue =
     (case field of
        VUint _ \<Rightarrow>
          (case ParseUint rawValue of
             None \<Rightarrow> Inl (UnparsableDefault KUint rawValue)
           | Some val \<Rightarrow> Inr (VUint val))
      | VInt _ \<Rightarrow>
          (case ParseInt rawValue of
             None \<Rightarrow> Inl (UnparsableDefault KInt rawValue)
           | Some val \<Rightarrow> Inr (VInt val))
      | VFloat32 _ \<Rightarrow>
          (case ParseFloat rt rawValue 32 of
             None \<Rightarrow> Inl (UnparsableDefault KFloat32 rawValue)
           | Some val \<Rightarrow> Inr (VFloat32 val))
      | VFloat64 _ \<Rightarrow>
          (case ParseFloat rt rawValue 64 of
             None \<Rightarrow> Inl (UnparsableDefault KFloat64 rawValue)
           | Some val \<Rightarrow> Inr (VFloat64 val))
      | VString _ \<Rightarrow> Inr (VString rawValue)
      | _ \<Rightarrow> Inl (UnsupportedKind (Kind field)))"

subsection \<open>The clauses of one field\<close>

text \<open>
  The end of the \<open>min\<close>/\<open>max\<close> case: the switch on \<open>valErr.Code\<close> fills in
  \<open>valErr.OriginalError\<close>, and the case ends there. \<open>valErr\<close> is a local of
  the loop body and nothing returns it.
\<close>

definition minMaxEnd :: "'f ValidateError \<Rightarrow> 'f bound \<Rightarrow> 'f outcome" where
  "minMaxEnd valErr val =
     (let valErr' =
        (if Code valErr = VALIDATE_ERR_CODE_TOO_SMALL
         then valErr\<lparr>OriginalError := Some (ErrTooSmall (ParamName valErr) val)\<rparr>
         else if Code valErr = VALIDATE_ERR_CODE_TOO_BIG
         then valErr\<lparr>OriginalError := Some (ErrTooBig (ParamName valErr) val)\<rparr>
         else valErr)
      in Ok)"

text \<open>
  The two comparisons of a numeric branch. \<open>lt a b\<close> is \<open>a < b\<close> in the
  branch's type: signed on \<open>int64\<close>, unsigned on \<open>uint64\<close>, the float order
  on \<open>float64\<close>.
\<close>

definition minMaxCompare ::
  "string \<Rightarrow> 'f ValidateError \<Rightarrow> ('a \<Rightarrow> 'a \<Rightarrow> bool) \<Rightarrow> 'a \<Rightarrow> 'a \<Rightarrow> 'f ValidateError"
where
  "minMaxCompare tagName valErr lt fv val =
     (let valErr1 = (if tagName = TAG_FIELD_MIN \<and> lt fv val
                     then valErr\<lparr>Code := VALIDATE_ERR_CODE_TOO_SMALL\<rparr> else valErr);
          valErr2 = (if tagName = TAG_FIELD_MAX \<and> lt val fv
                     then valErr1\<lparr>Code := VALIDATE_ERR_CODE_TOO_BIG\<rparr> else valErr1)
      in valErr2)"

text \<open>\<open>case reflect.Int, reflect.Int8, reflect.Int32, reflect.Int64\<close>, on \<open>fValue.Int()\<close>.\<close>

definition minMaxSigned :: "string \<Rightarrow> string \<Rightarrow> 'f ValidateError \<Rightarrow> 64 word \<Rightarrow> 'f outcome" where
  "minMaxSigned tagName tagRawVal valErr fv =
     (case ParseInt tagRawVal of
        None \<Rightarrow> Panic (UnparsableSigned tagName)
      | Some val \<Rightarrow>
          minMaxEnd (minMaxCompare tagName valErr (\<lambda>a b. sint a < sint b) fv val) (BoundInt val))"

text \<open>\<open>case reflect.Uint, reflect.Uint8, reflect.Uint32, reflect.Uint64\<close>, on \<open>fValue.Uint()\<close>.\<close>

definition minMaxUnsigned :: "string \<Rightarrow> string \<Rightarrow> 'f ValidateError \<Rightarrow> 64 word \<Rightarrow> 'f outcome" where
  "minMaxUnsigned tagName tagRawVal valErr fv =
     (case ParseUint tagRawVal of
        None \<Rightarrow> Panic (UnparsableUnsigned tagName)
      | Some val \<Rightarrow>
          minMaxEnd (minMaxCompare tagName valErr (\<lambda>a b. a < b) fv val) (BoundUint val))"

text \<open>\<open>case reflect.Float32, reflect.Float64\<close>, on \<open>fValue.Float()\<close>.\<close>

definition minMaxFloat ::
  "('r, 'f) runtime \<Rightarrow> string \<Rightarrow> string \<Rightarrow> 'f ValidateError \<Rightarrow> 'f \<Rightarrow> 'f outcome"
where
  "minMaxFloat rt tagName tagRawVal valErr fv =
     (case ParseFloat rt tagRawVal 64 of
        None \<Rightarrow> Panic (UnparsableFloat tagRawVal)
      | Some val \<Rightarrow>
          minMaxEnd (minMaxCompare tagName valErr (floatLess rt) fv val) (BoundFloat val))"

text \<open>
  One iteration of \<open>for tagName, tagRawVal := range vParams.Fields\<close>: the
  switch on \<open>tagName\<close>. The inner switch on \<open>fValue.Kind()\<close> is the case
  distinction on the stored value; \<open>fValue.Int()\<close> and \<open>fValue.Uint()\<close>
  widen to 64 bits (sign extension, zero extension). \<open>int(reqLen)\<close> turns
  the \<open>uint64\<close> into a 64-bit \<open>int\<close> with the same bits.
\<close>

definition evalTag ::
  "('r, 'f) runtime \<Rightarrow> string \<Rightarrow> FieldValidationParams \<Rightarrow> 'f rvalue \<Rightarrow> string \<times> string \<Rightarrow> 'f outcome"
where
  "evalTag rt structFieldName vParams fValue tag =
     (let tagName = fst tag; tagRawVal = snd tag in
      if tagName = TAG_FIELD_MIN \<or> tagName = TAG_FIELD_MAX then
        (let valErr = \<lparr>Code = VALIDATE_ERR_CODE_UNKNOWN, ParamName = Name vParams,
                        OriginalError = None\<rparr>
         in case fValue of
              VInt x \<Rightarrow> minMaxSigned tagName tagRawVal valErr x
            | VInt8 x \<Rightarrow> minMaxSigned tagName tagRawVal valErr (scast x)
            | VInt32 x \<Rightarrow> minMaxSigned tagName tagRawVal valErr (scast x)
            | VInt64 x \<Rightarrow> minMaxSigned tagName tagRawVal valErr x
            | VUint x \<Rightarrow> minMaxUnsigned tagName tagRawVal valErr x
            | VUint8 x \<Rightarrow> minMaxUnsigned tagName tagRawVal valErr (ucast x)
            | VUint32 x \<Rightarrow> minMaxUnsigned tagName tagRawVal valErr (ucast x)
            | VUint64 x \<Rightarrow> minMaxUnsigned tagName tagRawVal valErr x
            | VFloat32 x \<Rightarrow> minMaxFloat rt tagName tagRawVal valErr x
            | VFloat64 x \<Rightarrow> minMaxFloat rt tagName tagRawVal valErr x
            | _ \<Rightarrow> Panic (NotIntegerOrFloat tagName structFieldName))
      else if tagName = TAG_FIELD_MIN_LEN \<or> tagName = TAG_FIELD_MAX_LEN then
        (case fValue of
           VString str \<Rightarrow>
             (case ParseUint tagRawVal of
                None \<Rightarrow> Panic (UnparsableLength tagName)
              | Some reqLen \<Rightarrow>
                  if tagName = TAG_FIELD_MAX_LEN \<and> int (length str) > sint reqLen then
                    Failed \<lparr>Code = VALIDATE_ERR_CODE_TOO_LONG, ParamName = Name vParams,
                            OriginalError = Some (ErrTooLong (Name vParams) reqLen)\<rparr>
                  else if tagName = TAG_FIELD_MIN_LEN \<and> int (length str) < sint reqLen then
                    Failed \<lparr>Code = VALIDATE_ERR_CODE_TOO_SHORT, ParamName = Name vParams,
                            OriginalError = Some (ErrTooShort (Name vParams) reqLen)\<rparr>
                  else Ok)
         | _ \<Rightarrow> Panic (NotAString tagName structFieldName))
      else if tagName = TAG_FIELD_ONE_OF then Ok
      else if tagName = TAG_FIELD_DEFAULT then Ok
      else Panic (UnknownTagField tagName))"

text \<open>The \<open>range\<close> loop, over the entries in the order they are visited.\<close>

fun rangeFields ::
  "('r, 'f) runtime \<Rightarrow> string \<Rightarrow> FieldValidationParams \<Rightarrow> 'f rvalue \<Rightarrow> (string \<times> string) list
   \<Rightarrow> 'f outcome"
where
  "rangeFields rt structFieldName vParams fValue [] = Ok"
| "rangeFields rt structFieldName vParams fValue (tag # tags) =
     (case evalTag rt structFieldName vParams fValue tag of
        Ok \<Rightarrow> rangeFields rt structFieldName vParams fValue tags
      | Failed e \<Rightarrow> Failed e
      | Panic p \<Rightarrow> Panic p)"

subsection \<open>Validate\<close>

text \<open>
  A struct field as \<open>Validate\<close> reads it from the type: its Go name and the
  result of \<open>Tag.Lookup("validate")\<close>. The struct's storage maps the Go name
  of a field to its content (\<open>FieldByName\<close>). Field names of a struct are
  distinct, and the fields are exported, so that reflection can set them.
  The input maps a key to a raw message; the pointers of the Go map are taken
  to be non-nil, so that \<open>*val\<close> is defined.
\<close>

record StructField =
  sfName :: string
  sfTag :: "string option"

type_synonym 'f storage = "string \<Rightarrow> 'f rvalue"

text \<open>
  The body of the loop over the fields, for field number \<open>i\<close>. It returns
  how the iteration ends and the storage it leaves: the struct is written in
  place, so whatever was stored before a return or a panic stays stored.
\<close>

definition validateField ::
  "('r, 'f) runtime \<Rightarrow> (string \<rightharpoonup> 'r) \<Rightarrow> nat \<Rightarrow> StructField \<Rightarrow> 'f storage
   \<Rightarrow> 'f outcome \<times> 'f storage"
where
  "validateField rt inputData i structField st =
     (case sfTag structField of
        None \<Rightarrow> (Ok, st)
      | Some tagValue \<Rightarrow>
          (let tagFieldsRaw = Split tagValue (CHR '','') in
           if length tagFieldsRaw = 0 then (Panic (EmptyTag (sfName structField)), st)
           else
             case decodeTagFields tagFieldsRaw of
               Inl p \<Rightarrow> (Panic p, st)
             | Inr vParams \<Rightarrow>
                 (case inputData (Name vParams) of
                    None \<Rightarrow>
                      if Required vParams then
                        (Failed \<lparr>Code = VALIDATE_ERR_CODE_MISSING_REQ_PARAM,
                                 ParamName = Name vParams,
                                 OriginalError = Some (ErrRequired (Name vParams))\<rparr>, st)
                      else
                        (case map_of (Fields vParams) TAG_FIELD_DEFAULT of
                           Some v \<Rightarrow>
                             (case setDefaultValue rt (st (sfName structField)) v of
                                Inl p \<Rightarrow> (Panic p, st)
                              | Inr fValue \<Rightarrow>
                                  (rangeFields rt (sfName structField) vParams fValue
                                     (rangeOrder rt i (Fields vParams)),
                                   st(sfName structField := fValue)))
                         | None \<Rightarrow> (Ok, st))
                  | Some val \<Rightarrow>
                      (let (fValue, errDecode) = Unmarshal rt val (st (sfName structField));
                           st' = st(sfName structField := fValue)
                       in case errDecode of
                            Some e \<Rightarrow>
                              (Failed \<lparr>Code = VALIDATE_ERR_CODE_UNPARSABLE,
                                       ParamName = Name vParams,
                                       OriginalError = Some (ErrDecode e)\<rparr>, st')
                          | None \<Rightarrow>
                              (rangeFields rt (sfName structField) vParams fValue
                                 (rangeOrder rt i (Fields vParams)), st')))))"

text \<open>\<open>for i := 0; i < outType.NumField(); i++\<close>, from field \<open>i\<close> on.\<close>

fun validateFrom ::
  "('r, 'f) runtime \<Rightarrow> (string \<rightharpoonup> 'r) \<Rightarrow> nat \<Rightarrow> StructField list \<Rightarrow> 'f storage
   \<Rightarrow> 'f outcome \<times> 'f storage"
where
  "validateFrom rt inputData i [] st = (Ok, st)"
| "validateFrom rt inputData i (structField # rest) st =
     (case validateField rt inputData i structField st of
        (Ok, st') \<Rightarrow> validateFrom rt inputData (Suc i) rest st'
      | (Failed e, st') \<Rightarrow> (Failed e, st')
      | (Panic p, st') \<Rightarrow> (Panic p, st'))"

text \<open>
  What the caller passes as \<open>outputStruct\<close>: anything (\<open>interface{}\<close>). Only
  a non-nil pointer to a struct gets past the three checks at the top.
\<close>

datatype 'f outputStruct =
    NonPointer
  | NilPtr
  | PtrToNonStruct
  | PtrToStruct "StructField list" "'f storage"

fun Validate ::
  "('r, 'f) runtime \<Rightarrow> (string \<rightharpoonup> 'r) \<Rightarrow> 'f outputStruct \<Rightarrow> 'f outcome \<times> 'f outputStruct"
where
  "Validate rt inputData NonPointer = (Panic NotAPointer, NonPointer)"
| "Validate rt inputData NilPtr = (Panic NilPointer, NilPtr)"
| "Validate rt inputData PtrToNonStruct = (Panic NotAStruct, PtrToNonStruct)"
| "Validate rt inputData (PtrToStruct sfs st) =
     (case validateFrom rt inputData 0 sfs st of
        (res, st') \<Rightarrow> (res, PtrToStruct sfs st'))"

subsection \<open>A runtime for the scenarios\<close>

text \<open>
  To run \<open>Validate\<close> on concrete inputs the three parameters need values.
  The raw values are JSON tokens; the decoder stand-in stores an integer
  token in a field of an integer type it fits, a string token in a string
  field, and reports an error otherwise, leaving the field as it was. Maps
  are ranged over in the order of insertion. The scenarios have no
  floating-point field, and the float primitives of this runtime accept
  nothing. The general theorems below hold for every runtime, not only this
  one.
\<close>

datatype json = JNumber int | JString string

definition fitsSigned :: "nat \<Rightarrow> int \<Rightarrow> bool" where
  "fitsSigned w n = (- (2 ^ (w - 1)) \<le> n \<and> n < 2 ^ (w - 1))"

definition fitsUnsigned :: "nat \<Rightarrow> int \<Rightarrow> bool" where
  "fitsUnsigned w n = (0 \<le> n \<and> n < 2 ^ w)"

definition cannotUnmarshal :: "'f rvalue \<Rightarrow> 'f rvalue \<times> string option" where
  "cannotUnmarshal field = (field, Some ''json: cannot unmarshal'')"

definition jsonUnmarshal :: "json \<Rightarrow> 'f rvalue \<Rightarrow> 'f rvalue \<times> string option" where
  "jsonUnmarshal raw field =
     (case raw of
        JNumber n \<Rightarrow>
          (case field of
             VInt x \<Rightarrow> if fitsSigned 64 n then (VInt (of_int n), None) else cannotUnmarshal field
           | VInt8 x \<Rightarrow> if fitsSigned 8 n then (VInt8 (of_int n), None) else cannotUnmarshal field
           | VInt16 x \<Rightarrow> if fitsSigned 16 n then (VInt16 (of_int n), None) else cannotUnmarshal field
           | VInt32 x \<Rightarrow> if fitsSigned 32 n then (VInt32 (of_int n), None) else cannotUnmarshal field
           | VInt64 x \<Rightarrow> if fitsSigned 64 n then (VInt64 (of_int n), None) else cannotUnmarshal field
           | VUint x \<Rightarrow> if fitsUnsigned 64 n then (VUint (of_int n), None) else cannotUnmarshal field
           | VUint8 x \<Rightarrow> if fitsUnsigned 8 n then (VUint8 (of_int n), None) else cannotUnmarshal field
           | VUint16 x \<Rightarrow> if fitsUnsigned 16 n then (VUint16 (of_int n), None) else cannotUnmarshal field
           | VUint32 x \<Rightarrow> if fitsUnsigned 32 n then (VUint32 (of_int n), None) else cannotUnmarshal field
           | VUint64 x \<Rightarrow> if fitsUnsigned 64 n then (VUint64 (of_int n), None) else cannotUnmarshal field
           | _ \<Rightarrow> cannotUnmarshal field)
      | JString s \<Rightarrow>
          (case field of
             VString x \<Rightarrow> (VString s, None)
           | _ \<Rightarrow> cannotUnmarshal field))"

definition scenarioRuntime :: "(json, unit) runtime" where
  "scenarioRuntime =
     \<lparr>Unmarshal = jsonUnmarshal,
      ParseFloat = (\<lambda>s bitSize. None),
      floatLess = (\<lambda>a b. False),
      rangeOrder = (\<lambda>i entries. entries)\<rparr>"

text \<open>A struct with one field, as the scenarios have it.\<close>

definition allFields :: "'f rvalue \<Rightarrow> 'f storage" where
  "allFields zero = (\<lambda>goName. zero)"

definition oneField :: "string \<Rightarrow> string \<Rightarrow> 'f rvalue \<Rightarrow> 'f outputStruct" where
  "oneField goName tagValue zero =
     PtrToStruct [\<lparr>sfName = goName, sfTag = Some tagValue\<rparr>] (allFields zero)"

text \<open>The content of a field of the destination after the call.\<close>

fun readField :: "'f outputStruct \<Rightarrow> string \<Rightarrow> 'f rvalue option" where
  "readField (PtrToStruct sfs st) goName = Some (st goName)"
| "readField other goName = None"

subsection \<open>Notions the properties are stated with\<close>

text \<open>
  A clause \<open>v\<close> of a tag has the name \<open>splitRes[0]\<close> and the value
  \<open>tagFieldValue\<close> of \<open>decodeTagFields\<close>.
\<close>

definition clauseName :: "string \<Rightarrow> string" where
  "clauseName v = hd (SplitN2 v)"

definition clauseValue :: "string \<Rightarrow> string" where
  "clauseValue v = (if length (SplitN2 v) = 2 then SplitN2 v ! 1 else [])"

text \<open>
  The four defects of a tag: a clause with an empty name, a name that occurs
  twice, a \<open>name\<close> clause with an empty value, a \<open>required\<close> clause whose
  value is none of the empty text, \<open>true\<close> and \<open>false\<close>.
\<close>

definition malformed :: "string list \<Rightarrow> bool" where
  "malformed clauses \<longleftrightarrow>
     (\<exists>v \<in> set clauses. clauseName v = [])
   \<or> \<not> distinct (map clauseName clauses)
   \<or> (\<exists>v \<in> set clauses. clauseName v = TAG_FIELD_NAME \<and> clauseValue v = [])
   \<or> (\<exists>v \<in> set clauses. clauseName v = TAG_FIELD_REQUIRED
         \<and> clauseValue v \<noteq> [] \<and> clauseValue v \<noteq> ''true'' \<and> clauseValue v \<noteq> ''false'')"

text \<open>
  The same inside the loop of \<open>decodeTagFields\<close>, where some names have been
  seen already.
\<close>

definition defective :: "(string \<rightharpoonup> bool) \<Rightarrow> string list \<Rightarrow> bool" where
  "defective seen clauses \<longleftrightarrow>
     malformed clauses \<or> (\<exists>v \<in> set clauses. seen (clauseName v) \<noteq> None)"

text \<open>The clause names the switch in the \<open>range\<close> loop has a case for.\<close>

definition recognized :: "string set" where
  "recognized =
     {TAG_FIELD_MIN, TAG_FIELD_MAX, TAG_FIELD_MIN_LEN, TAG_FIELD_MAX_LEN,
      TAG_FIELD_DEFAULT, TAG_FIELD_ONE_OF}"

text \<open>
  The value the clauses of a field are evaluated on, when they are evaluated
  at all: the decoded value if the key is present and decoding gives no
  error, the default if the key is absent, the field is not required and the
  default can be written. In every other case the loop over the clauses is
  not reached.
\<close>

definition clauseSubject ::
  "('r, 'f) runtime \<Rightarrow> (string \<rightharpoonup> 'r) \<Rightarrow> FieldValidationParams \<Rightarrow> 'f rvalue
   \<Rightarrow> 'f rvalue option"
where
  "clauseSubject rt inputData vParams old =
     (case inputData (Name vParams) of
        None \<Rightarrow>
          if Required vParams then None
          else (case map_of (Fields vParams) TAG_FIELD_DEFAULT of
                  None \<Rightarrow> None
                | Some v \<Rightarrow>
                    (case setDefaultValue rt old v of Inl p \<Rightarrow> None | Inr fValue \<Rightarrow> Some fValue))
      | Some val \<Rightarrow>
          (case snd (Unmarshal rt val old) of
             None \<Rightarrow> Some (fst (Unmarshal rt val old))
           | Some e \<Rightarrow> None))"

text \<open>
  A default coerced into a type, in the words of the specification: the text
  read as a signed integer, an unsigned integer, a 32-bit or 64-bit float,
  or taken as it is; no other type has a default.
\<close>

definition coerceDefault :: "('r, 'f) runtime \<Rightarrow> kind \<Rightarrow> string \<Rightarrow> 'f rvalue option" where
  "coerceDefault rt k raw =
     (case k of
        KInt \<Rightarrow> map_option VInt (ParseInt raw)
      | KUint \<Rightarrow> map_option VUint (ParseUint raw)
      | KFloat32 \<Rightarrow> map_option VFloat32 (ParseFloat rt raw 32)
      | KFloat64 \<Rightarrow> map_option VFloat64 (ParseFloat rt raw 64)
      | KString \<Rightarrow> Some (VString raw)
      | _ \<Rightarrow> None)"

text \<open>
  A field the call has nothing to do for: it has no \<open>validate\<close> tag, or its
  tag parses, does not require the field and has no default, and the key is
  not in the input.
\<close>

definition leftAlone :: "(string \<rightharpoonup> 'r) \<Rightarrow> StructField \<Rightarrow> bool" where
  "leftAlone inputData sf =
     (case sfTag sf of
        None \<Rightarrow> True
      | Some tagValue \<Rightarrow>
          (case decodeTagFields (Split tagValue (CHR '','')) of
             Inl p \<Rightarrow> False
           | Inr vParams \<Rightarrow>
               \<not> Required vParams
               \<and> map_of (Fields vParams) TAG_FIELD_DEFAULT = None
               \<and> inputData (Name vParams) = None))"

section \<open>Properties\<close>

subsection \<open>Unfolding the constants\<close>

lemmas tag_names =
  TAG_FIELD_NAME_def TAG_FIELD_REQUIRED_def TAG_FIELD_MAX_def TAG_FIELD_MIN_def
  TAG_FIELD_MAX_LEN_def TAG_FIELD_MIN_LEN_def TAG_FIELD_DEFAULT_def TAG_FIELD_ONE_OF_def

lemmas err_codes =
  VALIDATE_ERR_CODE_UNKNOWN_def VALIDATE_ERR_CODE_MISSING_REQ_PARAM_def
  VALIDATE_ERR_CODE_UNPARSABLE_def VALIDATE_ERR_CODE_TOO_LONG_def
  VALIDATE_ERR_CODE_TOO_SHORT_def VALIDATE_ERR_CODE_TOO_BIG_def
  VALIDATE_ERR_CODE_TOO_SMALL_def VALIDATE_ERR_CODE_INVALID_def

subsection \<open>What a clause, a field and a call can end with\<close>

lemma minMaxEnd_Ok: "minMaxEnd valErr val = Ok"
  by (simp add: minMaxEnd_def Let_def)

lemma minMaxSigned_cases:
  "minMaxSigned tagName raw valErr fv =
     (case ParseInt raw of None \<Rightarrow> Panic (UnparsableSigned tagName) | Some val \<Rightarrow> Ok)"
  by (simp add: minMaxSigned_def minMaxEnd_Ok split: option.splits)

lemma minMaxUnsigned_cases:
  "minMaxUnsigned tagName raw valErr fv =
     (case ParseUint raw of None \<Rightarrow> Panic (UnparsableUnsigned tagName) | Some val \<Rightarrow> Ok)"
  by (simp add: minMaxUnsigned_def minMaxEnd_Ok split: option.splits)

lemma minMaxFloat_cases:
  "minMaxFloat rt tagName raw valErr fv =
     (case ParseFloat rt raw 64 of None \<Rightarrow> Panic (UnparsableFloat raw) | Some val \<Rightarrow> Ok)"
  by (simp add: minMaxFloat_def minMaxEnd_Ok split: option.splits)

lemmas minMax_cases = minMaxSigned_cases minMaxUnsigned_cases minMaxFloat_cases

lemma evalTag_Failed:
  assumes "evalTag rt sfn vp fv tag = Failed e"
  shows "(Code e = VALIDATE_ERR_CODE_TOO_LONG \<or> Code e = VALIDATE_ERR_CODE_TOO_SHORT)
         \<and> ParamName e = Name vp"
  using assms
  by (auto simp: evalTag_def Let_def minMax_cases
           split: if_splits rvalue.splits option.splits)

lemma rangeFields_Failed:
  "rangeFields rt sfn vp fv tags = Failed e \<Longrightarrow>
     (Code e = VALIDATE_ERR_CODE_TOO_LONG \<or> Code e = VALIDATE_ERR_CODE_TOO_SHORT)
     \<and> ParamName e = Name vp"
proof (induction tags)
  case Nil
  then show ?case by simp
next
  case (Cons tag tags)
  show ?case
  proof (cases "evalTag rt sfn vp fv tag")
    case Ok
    with Cons show ?thesis by simp
  next
    case (Failed e')
    with Cons.prems have "e' = e" by simp
    with Failed show ?thesis using evalTag_Failed by blast
  next
    case (Panic p)
    with Cons.prems show ?thesis by simp
  qed
qed

lemma validateField_Failed:
  assumes "validateField rt inputData i sf st = (Failed e, st')"
  shows "Code e = VALIDATE_ERR_CODE_MISSING_REQ_PARAM \<or> Code e = VALIDATE_ERR_CODE_UNPARSABLE
         \<or> Code e = VALIDATE_ERR_CODE_TOO_LONG \<or> Code e = VALIDATE_ERR_CODE_TOO_SHORT"
  using assms
  by (auto simp: validateField_def Let_def
           split: option.splits if_splits sum.splits prod.splits
           dest: rangeFields_Failed)

lemma validateFrom_Failed:
  "validateFrom rt inputData i sfs st = (Failed e, st') \<Longrightarrow>
   Code e = VALIDATE_ERR_CODE_MISSING_REQ_PARAM \<or> Code e = VALIDATE_ERR_CODE_UNPARSABLE
         \<or> Code e = VALIDATE_ERR_CODE_TOO_LONG \<or> Code e = VALIDATE_ERR_CODE_TOO_SHORT"
proof (induction sfs arbitrary: i st)
  case Nil
  then show ?case by simp
next
  case (Cons sf sfs)
  obtain r st1 where step: "validateField rt inputData i sf st = (r, st1)"
    by (cases "validateField rt inputData i sf st")
  show ?case
  proof (cases r)
    case Ok
    with Cons.prems step have "validateFrom rt inputData (Suc i) sfs st1 = (Failed e, st')"
      by simp
    then show ?thesis by (rule Cons.IH)
  next
    case (Failed e')
    with Cons.prems step have "e' = e" by simp
    with Failed step show ?thesis using validateField_Failed by blast
  next
    case (Panic p)
    with Cons.prems step show ?thesis by simp
  qed
qed

lemma Validate_Failed:
  assumes "fst (Validate rt inputData out) = Failed e"
  shows "Code e = VALIDATE_ERR_CODE_MISSING_REQ_PARAM \<or> Code e = VALIDATE_ERR_CODE_UNPARSABLE
         \<or> Code e = VALIDATE_ERR_CODE_TOO_LONG \<or> Code e = VALIDATE_ERR_CODE_TOO_SHORT"
proof (cases out)
  case (PtrToStruct sfs st)
  obtain r st' where run: "validateFrom rt inputData 0 sfs st = (r, st')"
    by (cases "validateFrom rt inputData 0 sfs st")
  with assms PtrToStruct have "r = Failed e" by simp
  with run show ?thesis using validateFrom_Failed by blast
qed (use assms in simp_all)

lemma validateFrom_append:
  "validateFrom rt inputData i (pre @ rest) st =
     (case validateFrom rt inputData i pre st of
        (Ok, st1) \<Rightarrow> validateFrom rt inputData (i + length pre) rest st1
      | (Failed e, st1) \<Rightarrow> (Failed e, st1)
      | (Panic p, st1) \<Rightarrow> (Panic p, st1))"
proof (induction pre arbitrary: i st)
  case Nil
  then show ?case by simp
next
  case (Cons sf pre)
  obtain r st1 where step: "validateField rt inputData i sf st = (r, st1)"
    by (cases "validateField rt inputData i sf st")
  show ?case using step Cons.IH [of "Suc i" st1]
    by (cases r) (simp_all split: prod.splits outcome.splits)
qed

subsection \<open>The shape of one iteration and of the whole loop\<close>

lemma Split_not_Nil: "Split s sep \<noteq> []"
  by (induction s) (auto split: list.splits)

lemma validateField_untagged:
  "sfTag sf = None \<Longrightarrow> validateField rt inputData i sf st = (Ok, st)"
  by (simp add: validateField_def)

lemma validateField_tagged:
  assumes "sfTag sf = Some tag" and "decodeTagFields (Split tag (CHR '','')) = Inr vp"
  shows "validateField rt inputData i sf st =
     (case inputData (Name vp) of
        None \<Rightarrow>
          if Required vp then
            (Failed \<lparr>Code = VALIDATE_ERR_CODE_MISSING_REQ_PARAM, ParamName = Name vp,
                     OriginalError = Some (ErrRequired (Name vp))\<rparr>, st)
          else
            (case map_of (Fields vp) TAG_FIELD_DEFAULT of
               Some v \<Rightarrow>
                 (case setDefaultValue rt (st (sfName sf)) v of
                    Inl p \<Rightarrow> (Panic p, st)
                  | Inr fValue \<Rightarrow>
                      (rangeFields rt (sfName sf) vp fValue (rangeOrder rt i (Fields vp)),
                       st(sfName sf := fValue)))
             | None \<Rightarrow> (Ok, st))
      | Some val \<Rightarrow>
          (case snd (Unmarshal rt val (st (sfName sf))) of
             Some e \<Rightarrow>
               (Failed \<lparr>Code = VALIDATE_ERR_CODE_UNPARSABLE, ParamName = Name vp,
                        OriginalError = Some (ErrDecode e)\<rparr>,
                st(sfName sf := fst (Unmarshal rt val (st (sfName sf)))))
           | None \<Rightarrow>
               (rangeFields rt (sfName sf) vp (fst (Unmarshal rt val (st (sfName sf))))
                  (rangeOrder rt i (Fields vp)),
                st(sfName sf := fst (Unmarshal rt val (st (sfName sf)))))))"
  using assms
  by (simp add: validateField_def Let_def Split_not_Nil split: option.splits prod.splits)

lemma validateField_malformed:
  assumes "sfTag sf = Some tag" and "decodeTagFields (Split tag (CHR '','')) = Inl p"
  shows "validateField rt inputData i sf st = (Panic p, st)"
  using assms by (simp add: validateField_def Let_def Split_not_Nil)

lemma validateField_reached:
  assumes "sfTag sf = Some tag" and "decodeTagFields (Split tag (CHR '','')) = Inr vp"
    and "clauseSubject rt inputData vp (st (sfName sf)) = Some fv"
  shows "validateField rt inputData i sf st =
           (rangeFields rt (sfName sf) vp fv (rangeOrder rt i (Fields vp)),
            st(sfName sf := fv))"
  using assms(3)
  by (auto simp: validateField_tagged [OF assms(1,2)] clauseSubject_def
           split: option.splits if_splits sum.splits)

lemma Validate_at_field:
  assumes "validateFrom rt inputData 0 pre st = (Ok, st1)"
  shows "Validate rt inputData (PtrToStruct (pre @ sf # post) st) =
     (case validateField rt inputData (length pre) sf st1 of
        (Ok, st2) \<Rightarrow>
          (case validateFrom rt inputData (Suc (length pre)) post st2 of
             (res, st3) \<Rightarrow> (res, PtrToStruct (pre @ sf # post) st3))
      | (Failed e, st2) \<Rightarrow> (Failed e, PtrToStruct (pre @ sf # post) st2)
      | (Panic p, st2) \<Rightarrow> (Panic p, PtrToStruct (pre @ sf # post) st2))"
  using assms
  by (simp add: validateFrom_append split: prod.splits outcome.splits)

lemma Validate_stops_at_field:
  assumes "validateFrom rt inputData 0 pre st = (Ok, st1)"
    and "validateField rt inputData (length pre) sf st1 = (res, st2)" and "res \<noteq> Ok"
  shows "Validate rt inputData (PtrToStruct (pre @ sf # post) st) =
           (res, PtrToStruct (pre @ sf # post) st2)"
  using assms(2,3)
  by (cases res) (simp_all add: Validate_at_field [OF assms(1)] del: Validate.simps)

lemma rangeFields_append:
  "rangeFields rt sfn vp fv (before @ rest) =
     (case rangeFields rt sfn vp fv before of
        Ok \<Rightarrow> rangeFields rt sfn vp fv rest
      | Failed e \<Rightarrow> Failed e
      | Panic p \<Rightarrow> Panic p)"
  by (induction before) (simp_all split: outcome.splits)

lemma evalTag_unknown:
  "k \<notin> recognized \<Longrightarrow> evalTag rt sfn vp fv (k, v) = Panic (UnknownTagField k)"
  by (simp add: evalTag_def recognized_def)

lemma rangeFields_unknown:
  assumes "(k, v) \<in> set tags" and "k \<notin> recognized"
  shows "rangeFields rt sfn vp fv tags \<noteq> Ok"
  using assms(1)
proof (induction tags)
  case Nil
  then show ?case by simp
next
  case (Cons tag tags)
  show ?case
  proof (cases "tag = (k, v)")
    case True
    then show ?thesis by (simp add: evalTag_unknown [OF assms(2)])
  next
    case False
    with Cons show ?thesis by (simp split: outcome.splits)
  qed
qed

subsection \<open>When the tag parser panics\<close>

lemma decodeLoop_Cons:
  "decodeLoop (v # vs) vp seen =
      (if clauseName v = [] then Inl EmptyTagField
       else if seen (clauseName v) \<noteq> None then Inl (TagFieldAlreadyDefined (clauseName v))
       else if clauseName v = TAG_FIELD_NAME then
         (if clauseValue v = [] then Inl (TagFieldEmpty TAG_FIELD_NAME)
          else decodeLoop vs (vp\<lparr>Name := clauseValue v\<rparr>) (seen(clauseName v \<mapsto> True)))
       else if clauseName v = TAG_FIELD_REQUIRED then
         (if clauseValue v = [] \<or> clauseValue v = ''true'' then
            decodeLoop vs (vp\<lparr>Required := True\<rparr>) (seen(clauseName v \<mapsto> True))
          else if clauseValue v = ''false'' then
            decodeLoop vs (vp\<lparr>Required := False\<rparr>) (seen(clauseName v \<mapsto> True))
          else Inl (TagFieldUnknownValue TAG_FIELD_REQUIRED))
       else decodeLoop vs
              (vp\<lparr>Fields := AList.update (clauseName v) (clauseValue v) (Fields vp)\<rparr>)
              (seen(clauseName v \<mapsto> True)))"
  by (simp add: clauseName_def clauseValue_def Let_def)

lemma defective_Nil: "\<not> defective seen []"
  by (simp add: defective_def malformed_def)

lemma defective_Cons:
  "defective seen (v # vs) \<longleftrightarrow>
     clauseName v = [] \<or> seen (clauseName v) \<noteq> None
   \<or> (clauseName v = TAG_FIELD_NAME \<and> clauseValue v = [])
   \<or> (clauseName v = TAG_FIELD_REQUIRED
        \<and> clauseValue v \<noteq> [] \<and> clauseValue v \<noteq> ''true'' \<and> clauseValue v \<noteq> ''false'')
   \<or> defective (seen(clauseName v \<mapsto> True)) vs"
proof -
  have "(\<exists>w \<in> set vs. (seen(clauseName v \<mapsto> True)) (clauseName w) \<noteq> None) \<longleftrightarrow>
        (\<exists>w \<in> set vs. seen (clauseName w) \<noteq> None) \<or> clauseName v \<in> clauseName ` set vs"
    by (auto simp: image_iff) metis+
  then show ?thesis
    unfolding defective_def malformed_def
    by (simp del: fun_upd_apply) blast
qed

lemma name_is_not_required:
  "TAG_FIELD_NAME \<noteq> TAG_FIELD_REQUIRED" "TAG_FIELD_REQUIRED \<noteq> TAG_FIELD_NAME"
  by (simp_all add: tag_names)

lemma decodeLoop_panics_iff:
  "(\<exists>p. decodeLoop clauses vp seen = Inl p) \<longleftrightarrow> defective seen clauses"
proof (induction clauses arbitrary: vp seen)
  case Nil
  then show ?case by (simp add: defective_Nil)
next
  case (Cons v vs)
  show ?case
    unfolding decodeLoop_Cons defective_Cons
    by (auto simp: Cons.IH name_is_not_required simp del: fun_upd_apply)
qed

lemma decodeTagFields_panics_iff:
  "(\<exists>p. decodeTagFields clauses = Inl p) \<longleftrightarrow> malformed clauses"
  by (simp add: decodeTagFields_def decodeLoop_panics_iff defective_def)

subsection \<open>Fields the call does not write\<close>

lemma validateField_frame:
  assumes "n \<noteq> sfName sf"
  shows "snd (validateField rt inputData i sf st) n = st n"
proof (cases "sfTag sf")
  case None
  then show ?thesis by (simp add: validateField_untagged)
next
  case (Some tag)
  show ?thesis
  proof (cases "decodeTagFields (Split tag (CHR '',''))")
    case (Inl p)
    then show ?thesis by (simp add: validateField_malformed [OF Some])
  next
    case (Inr vp)
    show ?thesis using assms
      by (simp add: validateField_tagged [OF Some Inr] split: option.splits sum.splits)
  qed
qed

lemma validateField_leftAlone:
  assumes "leftAlone inputData sf"
  shows "validateField rt inputData i sf st = (Ok, st)"
proof (cases "sfTag sf")
  case None
  then show ?thesis by (simp add: validateField_untagged)
next
  case (Some tag)
  with assms obtain vp where dec: "decodeTagFields (Split tag (CHR '','')) = Inr vp"
    and "\<not> Required vp" "map_of (Fields vp) TAG_FIELD_DEFAULT = None" "inputData (Name vp) = None"
    by (auto simp: leftAlone_def split: sum.splits)
  then show ?thesis by (simp add: validateField_tagged [OF Some dec])
qed

lemma validateFrom_frame:
  assumes "\<forall>f \<in> set sfs. sfName f = n \<longrightarrow> leftAlone inputData f"
  shows "snd (validateFrom rt inputData i sfs st) n = st n"
  using assms
proof (induction sfs arbitrary: i st)
  case Nil
  then show ?case by simp
next
  case (Cons sf sfs)
  obtain r st1 where step: "validateField rt inputData i sf st = (r, st1)"
    by (cases "validateField rt inputData i sf st")
  have same: "st1 n = st n"
  proof (cases "sfName sf = n")
    case True
    with Cons.prems have "leftAlone inputData sf" by simp
    from validateField_leftAlone [OF this, of rt i st] step show ?thesis by simp
  next
    case False
    then have "n \<noteq> sfName sf" by blast
    from validateField_frame [OF this, of rt inputData i st] step show ?thesis by simp
  qed
  from Cons.prems have rest: "\<forall>f \<in> set sfs. sfName f = n \<longrightarrow> leftAlone inputData f"
    by simp
  show ?case
    using step same Cons.IH [OF rest, of "Suc i" st1]
    by (cases r) simp_all
qed

subsection \<open>Defaults and length bounds\<close>

lemma setDefaultValue_coerceDefault:
  "setDefaultValue rt old raw = Inr dv \<longleftrightarrow> coerceDefault rt (Kind old) raw = Some dv"
proof (cases old)
  case (VOpaque k)
  then show ?thesis
    by (cases k) (simp_all add: setDefaultValue_def coerceDefault_def)
qed (auto simp: setDefaultValue_def coerceDefault_def split: option.splits)

lemma sint_small:
  fixes reqLen :: "64 word"
  assumes "unat reqLen < 2 ^ 63"
  shows "sint reqLen = int (unat reqLen)"
proof -
  from assms have "int (unat reqLen) < int (2 ^ 63)"
    by (simp only: of_nat_less_iff)
  then have small: "uint reqLen < 2 ^ 63"
    by simp
  have "- (2 ^ 63) \<le> uint reqLen"
    by (rule order_trans [of _ 0]) simp_all
  then have "signed_take_bit 63 (uint reqLen) = uint reqLen"
    using small by (rule signed_take_bit_int_eq_self)
  then show ?thesis
    by (simp add: sint_uint)
qed

lemma evalTag_length:
  assumes "tagName = TAG_FIELD_MIN_LEN \<or> tagName = TAG_FIELD_MAX_LEN"
    and "ParseUint rawBound = Some reqLen" and "unat reqLen < 2 ^ 63"
  shows "evalTag rt sfn vp (VString str) (tagName, rawBound) =
     (if tagName = TAG_FIELD_MAX_LEN \<and> unat reqLen < length str then
        Failed \<lparr>Code = VALIDATE_ERR_CODE_TOO_LONG, ParamName = Name vp,
                OriginalError = Some (ErrTooLong (Name vp) reqLen)\<rparr>
      else if tagName = TAG_FIELD_MIN_LEN \<and> length str < unat reqLen then
        Failed \<lparr>Code = VALIDATE_ERR_CODE_TOO_SHORT, ParamName = Name vp,
                OriginalError = Some (ErrTooShort (Name vp) reqLen)\<rparr>
      else Ok)"
proof -
  have lt: "int (length str) < sint reqLen \<longleftrightarrow> length str < unat reqLen"
    by (simp only: sint_small [OF assms(3)] of_nat_less_iff)
  have gt: "sint reqLen < int (length str) \<longleftrightarrow> unat reqLen < length str"
    by (simp only: sint_small [OF assms(3)] of_nat_less_iff)
  show ?thesis
    using assms(1,2) by (auto simp: evalTag_def lt gt tag_names)
qed

subsection \<open>Where a returned error of the clause loop comes from\<close>

lemma evalTag_Failed_length_clause:
  assumes "evalTag rt sfn vp fv tag = Failed e"
  shows "fst tag = TAG_FIELD_MIN_LEN \<or> fst tag = TAG_FIELD_MAX_LEN"
  using assms
  by (auto simp: evalTag_def Let_def minMax_cases
           split: if_splits rvalue.splits option.splits)

lemma rangeFields_Failed_clause:
  "rangeFields rt sfn vp fv tags = Failed e \<Longrightarrow>
     \<exists>c \<in> set tags. evalTag rt sfn vp fv c = Failed e"
proof (induction tags)
  case Nil
  then show ?case by simp
next
  case (Cons tag tags)
  then show ?case
    by (cases "evalTag rt sfn vp fv tag") auto
qed

lemma first_unknown_clause:
  assumes "(k, v) \<in> set tags" and "k \<notin> recognized"
  shows "\<exists>before k' v' rest. tags = before @ (k', v') # rest \<and> k' \<notin> recognized
           \<and> (\<forall>c \<in> set before. fst c \<in> recognized)"
proof -
  from assms have "\<exists>c \<in> set tags. fst c \<notin> recognized"
    by force
  then obtain before c rest where "tags = before @ c # rest" "fst c \<notin> recognized"
    "\<forall>d \<in> set before. \<not> fst d \<notin> recognized"
    by (rule split_list_first_propE)
  then show ?thesis
    by (cases c) auto
qed

text \<open>
  Below \<open>2^63\<close> the length clauses do what is expected of them: when the
  \<open>range\<close> loop comes to a \<open>minLen\<close> or \<open>maxLen\<close> clause of a string field
  (the clauses visited before it having passed), \<open>Validate\<close> returns
  \<open>TooShort\<close> or \<open>TooLong\<close> at once if the bound is violated, and goes on
  with the remaining clauses if it is not.
\<close>

lemma length_clause_below_two_to_63:
  assumes "sfTag sf = Some tag"
    and "decodeTagFields (Split tag (CHR '','')) = Inr vp"
    and "validateFrom rt inputData 0 pre st = (Ok, st')"
    and "clauseSubject rt inputData vp (st' (sfName sf)) = Some (VString str)"
    and "rangeOrder rt (length pre) (Fields vp) = before @ (tagName, rawBound) # rest"
    and "rangeFields rt (sfName sf) vp (VString str) before = Ok"
    and "tagName = TAG_FIELD_MIN_LEN \<or> tagName = TAG_FIELD_MAX_LEN"
    and "ParseUint rawBound = Some reqLen"
    and "unat reqLen < 2 ^ 63"
  shows
    "(tagName = TAG_FIELD_MIN_LEN \<and> length str < unat reqLen \<longrightarrow>
        Validate rt inputData (PtrToStruct (pre @ sf # post) st) =
          (Failed \<lparr>Code = VALIDATE_ERR_CODE_TOO_SHORT, ParamName = Name vp,
                   OriginalError = Some (ErrTooShort (Name vp) reqLen)\<rparr>,
           PtrToStruct (pre @ sf # post) (st'(sfName sf := VString str))))
     \<and> (tagName = TAG_FIELD_MAX_LEN \<and> unat reqLen < length str \<longrightarrow>
        Validate rt inputData (PtrToStruct (pre @ sf # post) st) =
          (Failed \<lparr>Code = VALIDATE_ERR_CODE_TOO_LONG, ParamName = Name vp,
                   OriginalError = Some (ErrTooLong (Name vp) reqLen)\<rparr>,
           PtrToStruct (pre @ sf # post) (st'(sfName sf := VString str))))
     \<and> (\<not> (tagName = TAG_FIELD_MIN_LEN \<and> length str < unat reqLen)
          \<and> \<not> (tagName = TAG_FIELD_MAX_LEN \<and> unat reqLen < length str) \<longrightarrow>
        validateField rt inputData (length pre) sf st' =
          (rangeFields rt (sfName sf) vp (VString str) rest, st'(sfName sf := VString str)))"
proof -
  let ?short = "Failed \<lparr>Code = VALIDATE_ERR_CODE_TOO_SHORT, ParamName = Name vp,
                   OriginalError = Some (ErrTooShort (Name vp) reqLen)\<rparr>"
  let ?long = "Failed \<lparr>Code = VALIDATE_ERR_CODE_TOO_LONG, ParamName = Name vp,
                   OriginalError = Some (ErrTooLong (Name vp) reqLen)\<rparr>"
  let ?st = "st'(sfName sf := VString str)"
  have differ: "TAG_FIELD_MIN_LEN \<noteq> TAG_FIELD_MAX_LEN"
    by (simp add: tag_names)
  have clause: "evalTag rt (sfName sf) vp (VString str) (tagName, rawBound) =
     (if tagName = TAG_FIELD_MAX_LEN \<and> unat reqLen < length str then ?long
      else if tagName = TAG_FIELD_MIN_LEN \<and> length str < unat reqLen then ?short
      else Ok)"
    by (rule evalTag_length [OF assms(7,8,9)])
  have loop: "rangeFields rt (sfName sf) vp (VString str) (rangeOrder rt (length pre) (Fields vp))
      = (case evalTag rt (sfName sf) vp (VString str) (tagName, rawBound) of
           Ok \<Rightarrow> rangeFields rt (sfName sf) vp (VString str) rest
         | Failed e \<Rightarrow> Failed e
         | Panic p \<Rightarrow> Panic p)"
    by (simp add: assms(5,6) rangeFields_append)
  have step: "validateField rt inputData (length pre) sf st' =
      (rangeFields rt (sfName sf) vp (VString str) (rangeOrder rt (length pre) (Fields vp)), ?st)"
    by (rule validateField_reached [where st = st', OF assms(1,2,4)])
  have short: "Validate rt inputData (PtrToStruct (pre @ sf # post) st) =
                 (?short, PtrToStruct (pre @ sf # post) ?st)"
    if "tagName = TAG_FIELD_MIN_LEN" "length str < unat reqLen"
  proof (rule Validate_stops_at_field [OF assms(3)])
    show "validateField rt inputData (length pre) sf st' = (?short, ?st)"
      using that differ clause by (simp add: step loop)
  qed simp
  have long: "Validate rt inputData (PtrToStruct (pre @ sf # post) st) =
                 (?long, PtrToStruct (pre @ sf # post) ?st)"
    if "tagName = TAG_FIELD_MAX_LEN" "unat reqLen < length str"
  proof (rule Validate_stops_at_field [OF assms(3)])
    show "validateField rt inputData (length pre) sf st' = (?long, ?st)"
      using that clause by (simp add: step loop)
  qed simp
  have accepted: "validateField rt inputData (length pre) sf st' =
          (rangeFields rt (sfName sf) vp (VString str) rest, ?st)"
    if "\<not> (tagName = TAG_FIELD_MIN_LEN \<and> length str < unat reqLen)"
       "\<not> (tagName = TAG_FIELD_MAX_LEN \<and> unat reqLen < length str)"
    using that clause by (auto simp: step loop)
  from short long accepted show ?thesis by blast
qed

section \<open>The claims\<close>

subsection \<open>C1: numeric bounds\<close>

text \<open>
  C1 says that a numeric field below its \<open>min\<close> gives a \<open>TooSmall\<close> error and
  one above its \<open>max\<close> a \<open>TooBig\<close> error, and that the tag
  \<open>name=age,required,min=0,max=150\<close> with the input \<open>{"age": 200}\<close> gives
  \<open>TooBig\<close>. The code compares and sets \<open>valErr.Code\<close>, and then drops
  \<open>valErr\<close>: on that very input \<open>Validate\<close> returns \<open>nil\<close> and leaves 200
  in the field.
\<close>

theorem C1_min_max_violation_returns_nil:
  "fst (Validate scenarioRuntime (map_of [(''age'', JNumber 200)])
          (oneField ''Age'' ''name=age,required,min=0,max=150'' (VInt 0))) = Ok
   \<and> readField (snd (Validate scenarioRuntime (map_of [(''age'', JNumber 200)])
          (oneField ''Age'' ''name=age,required,min=0,max=150'' (VInt 0)))) ''Age''
       = Some (VInt 200)"
  by code_simp

subsection \<open>C2: oneof\<close>

text \<open>
  C2, as amended: a \<open>oneof\<close> clause is recognised and not evaluated. The
  iteration over it does nothing, whatever the value and the literals, and no
  call of \<open>Validate\<close> returns an error with the code
  \<open>VALIDATE_ERR_CODE_INVALID\<close>.
\<close>

theorem C2_oneof_not_evaluated:
  "evalTag rt sfn vp fv (TAG_FIELD_ONE_OF, raw) = Ok
   \<and> (Code e = VALIDATE_ERR_CODE_INVALID \<longrightarrow> fst (Validate rt inputData out) \<noteq> Failed e)"
proof
  show "evalTag rt sfn vp fv (TAG_FIELD_ONE_OF, raw) = Ok"
    by (simp add: evalTag_def tag_names)
  show "Code e = VALIDATE_ERR_CODE_INVALID \<longrightarrow> fst (Validate rt inputData out) \<noteq> Failed e"
    using Validate_Failed [of rt inputData out e] by (auto simp: err_codes)
qed

text \<open>The amended C2 at scenario C: an error with the code 7 is not what comes back.\<close>

theorem C2_oneof_not_evaluated_witness:
  "Code \<lparr>Code = 7, ParamName = ''color'', OriginalError = None\<rparr> = VALIDATE_ERR_CODE_INVALID
   \<and> evalTag scenarioRuntime ''Color'' \<lparr>Name = ''color'', Required = False, Fields = []\<rparr>
        (VString ''purple'') (TAG_FIELD_ONE_OF, ''red|green|blue'') = (Ok :: unit outcome)
   \<and> fst (Validate scenarioRuntime (map_of [(''color'', JString ''purple'')])
          (oneField ''Color'' ''name=color,oneof=red|green|blue'' (VString [])))
       \<noteq> Failed \<lparr>Code = 7, ParamName = ''color'', OriginalError = None\<rparr>"
  using C2_oneof_not_evaluated
    [of scenarioRuntime "''Color''" "\<lparr>Name = ''color'', Required = False, Fields = []\<rparr>"
        "VString ''purple''" "''red|green|blue''"
        "\<lparr>Code = 7, ParamName = ''color'', OriginalError = None\<rparr>"
        "map_of [(''color'', JString ''purple'')]"
        "oneField ''Color'' ''name=color,oneof=red|green|blue'' (VString [])"]
  by (simp add: err_codes)

text \<open>
  C2 as stated fails at its own scenario: with the tag
  \<open>name=color,oneof=red|green|blue\<close> and the input \<open>{"color": "purple"}\<close> the
  call returns \<open>nil\<close>.
\<close>

theorem C2_oneof_counterexample:
  "fst (Validate scenarioRuntime (map_of [(''color'', JString ''purple'')])
          (oneField ''Color'' ''name=color,oneof=red|green|blue'' (VString []))) = Ok"
  by code_simp

subsection \<open>C3: unknown clause names\<close>

text \<open>
  C3, as amended: an unknown clause name is found when the clauses of the
  field are evaluated, not before. When the scan reaches a field whose tag
  has a clause name outside the recognised set and the clauses are evaluated
  (the key is present and decodes, or it is absent, the field is optional and
  a default can be written), the call does not succeed. The \<open>range\<close> loop
  visits every clause of the tag; up to the first unknown name \<open>k'\<close> it
  visits recognised names only. If those clauses pass, \<open>Validate\<close> panics
  with the unknown-tag panic for \<open>k'\<close>. If one of them panics, \<open>Validate\<close>
  panics with its panic. The only other outcome is the \<open>TooLong\<close> or
  \<open>TooShort\<close> error, carrying the field's name, that a \<open>minLen\<close> or
  \<open>maxLen\<close> clause visited before \<open>k'\<close> returns.
\<close>

theorem C3_unknown_clause_name_when_clauses_are_evaluated:
  assumes "sfTag sf = Some tag"
    and "decodeTagFields (Split tag (CHR '','')) = Inr vp"
    and "(k, v) \<in> set (Fields vp)"
    and "k \<notin> recognized"
    and "set (rangeOrder rt (length pre) (Fields vp)) = set (Fields vp)"
    and "validateFrom rt inputData 0 pre st = (Ok, st')"
    and "clauseSubject rt inputData vp (st' (sfName sf)) = Some fv"
  shows "\<exists>before k' v' rest.
           rangeOrder rt (length pre) (Fields vp) = before @ (k', v') # rest
         \<and> k' \<notin> recognized
         \<and> (\<forall>c \<in> set before. fst c \<in> recognized)
         \<and> fst (Validate rt inputData (PtrToStruct (pre @ sf # post) st)) =
             (case rangeFields rt (sfName sf) vp fv before of
                Ok \<Rightarrow> Panic (UnknownTagField k')
              | Failed e \<Rightarrow> Failed e
              | Panic p \<Rightarrow> Panic p)
         \<and> (\<forall>e. rangeFields rt (sfName sf) vp fv before = Failed e \<longrightarrow>
               (\<exists>c \<in> set before.
                   (fst c = TAG_FIELD_MIN_LEN \<or> fst c = TAG_FIELD_MAX_LEN)
                 \<and> evalTag rt (sfName sf) vp fv c = Failed e
                 \<and> (Code e = VALIDATE_ERR_CODE_TOO_LONG \<or> Code e = VALIDATE_ERR_CODE_TOO_SHORT)
                 \<and> ParamName e = Name vp))"
proof -
  let ?cs = "rangeOrder rt (length pre) (Fields vp)"
  let ?res = "rangeFields rt (sfName sf) vp fv ?cs"
  have "(k, v) \<in> set ?cs"
    using assms(3,5) by simp
  from first_unknown_clause [OF this assms(4)]
  obtain before k' v' rest where split: "?cs = before @ (k', v') # rest"
    and unknown: "k' \<notin> recognized"
    and known: "\<forall>c \<in> set before. fst c \<in> recognized"
    by blast
  let ?head = "rangeFields rt (sfName sf) vp fv before"
  let ?out = "case ?head of Ok \<Rightarrow> Panic (UnknownTagField k')
              | Failed e \<Rightarrow> Failed e | Panic p \<Rightarrow> Panic p"
  have res: "?res = ?out"
    by (simp add: split rangeFields_append evalTag_unknown [OF unknown] split: outcome.splits)
  have stop: "?out \<noteq> Ok"
    by (simp split: outcome.splits)
  have step: "validateField rt inputData (length pre) sf st' = (?out, st'(sfName sf := fv))"
    using validateField_reached [where st = st' and i = "length pre", OF assms(1,2,7)] res
    by simp
  have run: "fst (Validate rt inputData (PtrToStruct (pre @ sf # post) st)) = ?out"
    using Validate_stops_at_field [OF assms(6) step stop] by simp
  have origin: "\<exists>c \<in> set before.
                   (fst c = TAG_FIELD_MIN_LEN \<or> fst c = TAG_FIELD_MAX_LEN)
                 \<and> evalTag rt (sfName sf) vp fv c = Failed e
                 \<and> (Code e = VALIDATE_ERR_CODE_TOO_LONG \<or> Code e = VALIDATE_ERR_CODE_TOO_SHORT)
                 \<and> ParamName e = Name vp"
    if "?head = Failed e" for e
  proof -
    from rangeFields_Failed_clause [OF that]
    obtain c where c: "c \<in> set before" "evalTag rt (sfName sf) vp fv c = Failed e"
      by blast
    from c(2) have "fst c = TAG_FIELD_MIN_LEN \<or> fst c = TAG_FIELD_MAX_LEN"
      by (rule evalTag_Failed_length_clause)
    moreover from c(2)
    have "(Code e = VALIDATE_ERR_CODE_TOO_LONG \<or> Code e = VALIDATE_ERR_CODE_TOO_SHORT)
            \<and> ParamName e = Name vp"
      by (rule evalTag_Failed)
    ultimately show ?thesis using c by blast
  qed
  from split unknown known run origin show ?thesis by blast
qed

text \<open>
  The amended C3 on the tag \<open>name=n,foo=1\<close> with the key present: the only
  clause is the unknown one, and the call panics with the unknown-tag panic.
\<close>

theorem C3_unknown_clause_name_when_clauses_are_evaluated_witness:
  "decodeTagFields (Split ''name=n,foo=1'' (CHR '',''))
     = Inr \<lparr>Name = ''n'', Required = False, Fields = [(''foo'', ''1'')]\<rparr>
   \<and> ''foo'' \<notin> recognized
   \<and> clauseSubject scenarioRuntime (map_of [(''n'', JNumber 4)])
        \<lparr>Name = ''n'', Required = False, Fields = [(''foo'', ''1'')]\<rparr>
        (allFields (VInt 0 :: unit rvalue) ''N'') = Some (VInt 4)
   \<and> fst (Validate scenarioRuntime (map_of [(''n'', JNumber 4)])
        (PtrToStruct [\<lparr>sfName = ''N'', sfTag = Some ''name=n,foo=1''\<rparr>] (allFields (VInt 0))))
     = Panic (UnknownTagField ''foo'')"
proof -
  let ?sf = "\<lparr>sfName = ''N'', sfTag = Some ''name=n,foo=1''\<rparr>"
  let ?vp = "\<lparr>Name = ''n'', Required = False, Fields = [(''foo'', ''1'')]\<rparr>"
  let ?inp = "map_of [(''n'', JNumber 4)]"
  let ?run = "fst (Validate scenarioRuntime ?inp (PtrToStruct [?sf] (allFields (VInt 0))))"
  have tag: "sfTag ?sf = Some ''name=n,foo=1''" by simp
  have dec: "decodeTagFields (Split ''name=n,foo=1'' (CHR '','')) = Inr ?vp"
    by code_simp
  have mem: "(''foo'', ''1'') \<in> set (Fields ?vp)" by simp
  have unk: "''foo'' \<notin> recognized" by (simp add: recognized_def tag_names)
  have ord: "set (rangeOrder scenarioRuntime (length ([] :: StructField list)) (Fields ?vp))
               = set (Fields ?vp)"
    by (simp add: scenarioRuntime_def)
  have pre: "validateFrom scenarioRuntime ?inp 0 [] (allFields (VInt 0 :: unit rvalue))
               = (Ok, allFields (VInt 0))"
    by simp
  have subj: "clauseSubject scenarioRuntime ?inp ?vp (allFields (VInt 0 :: unit rvalue) (sfName ?sf))
               = Some (VInt 4)"
    by code_simp
  have cs: "rangeOrder scenarioRuntime (length ([] :: StructField list)) (Fields ?vp)
              = [(''foo'', ''1'')]"
    by (simp add: scenarioRuntime_def)
  from C3_unknown_clause_name_when_clauses_are_evaluated
         [where st' = "allFields (VInt 0)" and post = "[]", OF tag dec mem unk ord pre subj]
  obtain before k' v' rest where
    split: "rangeOrder scenarioRuntime (length ([] :: StructField list)) (Fields ?vp)
              = before @ (k', v') # rest"
    and run: "fst (Validate scenarioRuntime ?inp
                (PtrToStruct ([] @ ?sf # []) (allFields (VInt 0)))) =
             (case rangeFields scenarioRuntime (sfName ?sf) ?vp (VInt 4 :: unit rvalue) before of
                Ok \<Rightarrow> Panic (UnknownTagField k')
              | Failed e \<Rightarrow> Failed e
              | Panic p \<Rightarrow> Panic p)"
    by blast
  from split cs have "before = [] \<and> k' = ''foo''"
    by (auto simp: append_eq_Cons_conv)
  with run have "?run = Panic (UnknownTagField ''foo'')"
    by (simp del: Validate.simps)
  with dec unk subj show ?thesis by (simp del: Validate.simps)
qed

text \<open>
  C3 as stated fails in two ways. When the key is absent, the tag
  \<open>name=n,foo=1\<close> is passed over and the call returns \<open>nil\<close>. When the key is
  present and a violated length clause is visited before the unknown name
  (tag \<open>name=s,maxLen=1,foo=1\<close>, text \<open>abc\<close>, clauses in the order of the
  tag), the call returns \<open>TooLong\<close> and does not panic.
\<close>

theorem C3_unknown_name_skipped_counterexample:
  "fst (Validate scenarioRuntime (map_of [])
          (oneField ''N'' ''name=n,foo=1'' (VInt 0))) = Ok
   \<and> fst (Validate scenarioRuntime (map_of [(''s'', JString ''abc'')])
          (oneField ''S'' ''name=s,maxLen=1,foo=1'' (VString [])))
       = Failed \<lparr>Code = VALIDATE_ERR_CODE_TOO_LONG, ParamName = ''s'',
                  OriginalError = Some (ErrTooLong ''s'' 1)\<rparr>"
  by code_simp

subsection \<open>C4: length bounds\<close>

text \<open>
  C4 says that a string strictly shorter than its \<open>minLen\<close> bound gives
  \<open>TooShort\<close>, one strictly longer than its \<open>maxLen\<close> bound gives \<open>TooLong\<close>,
  and lengths up to the bound are accepted. The code parses the bound as a
  \<open>uint64\<close> and compares the length with \<open>int(reqLen)\<close>, which is negative
  for the bounds from \<open>2^63\<close> on: with \<open>minLen=9223372036854775808\<close> the
  one-letter text \<open>x\<close>, shorter than the bound, is accepted, and with
  \<open>maxLen=9223372036854775808\<close> the same text, not longer than the bound,
  is rejected as too long.
\<close>

theorem C4_length_bound_from_two_to_63_misjudged:
  "fst (Validate scenarioRuntime (map_of [(''bio'', JString ''x'')])
          (oneField ''Bio'' ''name=bio,minLen=9223372036854775808'' (VString []))) = Ok
   \<and> fst (Validate scenarioRuntime (map_of [(''bio'', JString ''x'')])
          (oneField ''Bio'' ''name=bio,maxLen=9223372036854775808'' (VString [])))
       = Failed \<lparr>Code = VALIDATE_ERR_CODE_TOO_LONG, ParamName = ''bio'',
                  OriginalError = Some (ErrTooLong ''bio'' 9223372036854775808)\<rparr>"
  by code_simp

subsection \<open>C5: required and absent\<close>

text \<open>
  C5: when the scan reaches a field whose tag declares it required and whose
  external name is not a key of the input, \<open>Validate\<close> returns a
  \<open>MissingRequired\<close> error with that name, whatever other clauses the tag has
  (the constraints of \<open>vp\<close> are arbitrary) and whatever fields follow (\<open>post\<close>
  is arbitrary, and the storage is the one the earlier fields left).
\<close>

theorem C5_required_and_absent_is_missing:
  assumes "sfTag sf = Some tag"
    and "decodeTagFields (Split tag (CHR '','')) = Inr vp"
    and "Required vp"
    and "inputData (Name vp) = None"
    and "validateFrom rt inputData 0 pre st = (Ok, st1)"
  shows "Validate rt inputData (PtrToStruct (pre @ sf # post) st) =
           (Failed \<lparr>Code = VALIDATE_ERR_CODE_MISSING_REQ_PARAM, ParamName = Name vp,
                    OriginalError = Some (ErrRequired (Name vp))\<rparr>,
            PtrToStruct (pre @ sf # post) st1)"
proof -
  have "validateField rt inputData (length pre) sf st1 =
          (Failed \<lparr>Code = VALIDATE_ERR_CODE_MISSING_REQ_PARAM, ParamName = Name vp,
                   OriginalError = Some (ErrRequired (Name vp))\<rparr>, st1)"
    using assms(3,4) by (simp add: validateField_tagged [OF assms(1,2)])
  then show ?thesis
    by (rule Validate_stops_at_field [OF assms(5)]) simp
qed

text \<open>
  C5 on a struct whose required field also has a default and is followed by a
  field with a malformed tag, which is never looked at.
\<close>

theorem C5_required_and_absent_is_missing_witness:
  "sfTag \<lparr>sfName = ''Count'', sfTag = Some ''name=count,required,default=7''\<rparr>
     = Some ''name=count,required,default=7''
   \<and> decodeTagFields (Split ''name=count,required,default=7'' (CHR '',''))
     = Inr \<lparr>Name = ''count'', Required = True, Fields = [(''default'', ''7'')]\<rparr>
   \<and> Required \<lparr>Name = ''count'', Required = True, Fields = [(''default'', ''7'')]\<rparr>
   \<and> map_of [(''other'', JNumber 1)] ''count'' = None
   \<and> fst (Validate scenarioRuntime (map_of [(''other'', JNumber 1)])
        (PtrToStruct
           [\<lparr>sfName = ''Count'', sfTag = Some ''name=count,required,default=7''\<rparr>,
            \<lparr>sfName = ''Broken'', sfTag = Some ''name=''\<rparr>]
           (allFields (VInt 0))))
     = Failed \<lparr>Code = VALIDATE_ERR_CODE_MISSING_REQ_PARAM, ParamName = ''count'',
               OriginalError = Some (ErrRequired ''count'')\<rparr>"
proof -
  have tag: "sfTag \<lparr>sfName = ''Count'', sfTag = Some ''name=count,required,default=7''\<rparr>
     = Some ''name=count,required,default=7''"
    by simp
  have dec: "decodeTagFields (Split ''name=count,required,default=7'' (CHR '',''))
     = Inr \<lparr>Name = ''count'', Required = True, Fields = [(''default'', ''7'')]\<rparr>"
    by code_simp
  have req: "Required \<lparr>Name = ''count'', Required = True, Fields = [(''default'', ''7'')]\<rparr>"
    by simp
  have absent: "map_of [(''other'', JNumber 1)]
      (Name \<lparr>Name = ''count'', Required = True, Fields = [(''default'', ''7'')]\<rparr>) = None"
    by simp
  have pre: "validateFrom scenarioRuntime (map_of [(''other'', JNumber 1)]) 0 []
               (allFields (VInt 0)) = (Ok, allFields (VInt 0))"
    by simp
  show ?thesis
    using C5_required_and_absent_is_missing [OF tag dec req absent pre,
        of "[\<lparr>sfName = ''Broken'', sfTag = Some ''name=''\<rparr>]"]
      dec
    by simp
qed

subsection \<open>C6: defaults\<close>

text \<open>
  C6: when the scan reaches an optional field with a \<open>default\<close> clause whose
  key is absent, and the default can be coerced into the field's type (one
  of \<open>int\<close>, \<open>uint\<close>, \<open>float32\<close>, \<open>float64\<close>, \<open>string\<close>), the field is
  set to exactly the coerced default, the iteration does not end in a
  \<open>MissingRequired\<close> error, and if the other clauses of the field and the
  later fields pass, \<open>Validate\<close> returns \<open>nil\<close>.
\<close>

theorem C6_default_for_absent_optional_field:
  assumes "sfTag sf = Some tag"
    and "decodeTagFields (Split tag (CHR '','')) = Inr vp"
    and "\<not> Required vp"
    and "map_of (Fields vp) TAG_FIELD_DEFAULT = Some raw"
    and "inputData (Name vp) = None"
    and "validateFrom rt inputData 0 pre st = (Ok, st1)"
    and "coerceDefault rt (Kind (st1 (sfName sf))) raw = Some dv"
  shows "snd (validateField rt inputData (length pre) sf st1) = st1(sfName sf := dv)
     \<and> (\<forall>e. fst (validateField rt inputData (length pre) sf st1) = Failed e
            \<longrightarrow> Code e \<noteq> VALIDATE_ERR_CODE_MISSING_REQ_PARAM)
     \<and> (rangeFields rt (sfName sf) vp dv (rangeOrder rt (length pre) (Fields vp)) = Ok
          \<and> validateFrom rt inputData (Suc (length pre)) post (st1(sfName sf := dv)) = (Ok, st2)
        \<longrightarrow> Validate rt inputData (PtrToStruct (pre @ sf # post) st)
              = (Ok, PtrToStruct (pre @ sf # post) st2))"
proof -
  have "setDefaultValue rt (st1 (sfName sf)) raw = Inr dv"
    using assms(7) by (simp add: setDefaultValue_coerceDefault)
  with assms(3,4,5) have "clauseSubject rt inputData vp (st1 (sfName sf)) = Some dv"
    by (simp add: clauseSubject_def)
  from validateField_reached [where st = st1 and i = "length pre", OF assms(1,2) this]
  have step: "validateField rt inputData (length pre) sf st1 =
           (rangeFields rt (sfName sf) vp dv (rangeOrder rt (length pre) (Fields vp)),
            st1(sfName sf := dv))" .
  have "\<forall>e. rangeFields rt (sfName sf) vp dv (rangeOrder rt (length pre) (Fields vp)) = Failed e
            \<longrightarrow> Code e \<noteq> VALIDATE_ERR_CODE_MISSING_REQ_PARAM"
    using rangeFields_Failed by (fastforce simp: err_codes)
  with step show ?thesis
    by (simp add: Validate_at_field [OF assms(6)] del: Validate.simps)
qed

text \<open>C6 at scenario B: the field is set to 18 and the call succeeds.\<close>

theorem C6_default_for_absent_optional_field_witness:
  "decodeTagFields (Split ''name=age,default=18'' (CHR '',''))
     = Inr \<lparr>Name = ''age'', Required = False, Fields = [(''default'', ''18'')]\<rparr>
   \<and> coerceDefault scenarioRuntime (Kind (allFields (VInt 0 :: unit rvalue) ''Age'')) ''18''
     = Some (VInt 18)
   \<and> Validate scenarioRuntime (map_of [])
        (PtrToStruct [\<lparr>sfName = ''Age'', sfTag = Some ''name=age,default=18''\<rparr>]
           (allFields (VInt 0)))
     = (Ok, PtrToStruct [\<lparr>sfName = ''Age'', sfTag = Some ''name=age,default=18''\<rparr>]
              ((allFields (VInt 0))(''Age'' := VInt 18)))"
proof -
  let ?sf = "\<lparr>sfName = ''Age'', sfTag = Some ''name=age,default=18''\<rparr>"
  let ?vp = "\<lparr>Name = ''age'', Required = False, Fields = [(''default'', ''18'')]\<rparr>"
  have tag: "sfTag ?sf = Some ''name=age,default=18''" by simp
  have dec: "decodeTagFields (Split ''name=age,default=18'' (CHR '','')) = Inr ?vp"
    by code_simp
  have opt: "\<not> Required ?vp" by simp
  have dflt: "map_of (Fields ?vp) TAG_FIELD_DEFAULT = Some ''18''"
    by (simp add: tag_names)
  have absent: "(map_of [] :: string \<rightharpoonup> json) (Name ?vp) = None" by simp
  have pre: "validateFrom scenarioRuntime (map_of []) 0 [] (allFields (VInt 0 :: unit rvalue))
               = (Ok, allFields (VInt 0))"
    by simp
  have "ParseInt ''18'' = Some 18" by code_simp
  then have co: "coerceDefault scenarioRuntime (Kind (allFields (VInt 0 :: unit rvalue) (sfName ?sf))) ''18''
               = Some (VInt 18)"
    by (simp add: coerceDefault_def allFields_def)
  have clauses: "rangeFields scenarioRuntime (sfName ?sf) ?vp (VInt 18 :: unit rvalue)
            (rangeOrder scenarioRuntime (length ([] :: StructField list)) (Fields ?vp)) = Ok"
    by (simp add: scenarioRuntime_def evalTag_def tag_names)
  have post: "validateFrom scenarioRuntime (map_of []) (Suc (length ([] :: StructField list))) []
                ((allFields (VInt 0 :: unit rvalue))(sfName ?sf := VInt 18))
               = (Ok, (allFields (VInt 0))(sfName ?sf := VInt 18))"
    by simp
  from C6_default_for_absent_optional_field [OF tag dec opt dflt absent pre co,
         of "[]" "(allFields (VInt 0))(sfName ?sf := VInt 18)"]
       clauses post
  have "Validate scenarioRuntime (map_of []) (PtrToStruct [?sf] (allFields (VInt 0)))
          = (Ok, PtrToStruct [?sf] ((allFields (VInt 0))(''Age'' := VInt 18)))"
    by (simp del: Validate.simps)
  with dec co show ?thesis by (simp del: Validate.simps)
qed

subsection \<open>C7: malformed tags\<close>

text \<open>
  C7: \<open>decodeTagFields\<close> panics exactly on the tags with one of the four
  defects. It is a function of the clauses alone; and a field with such a tag
  makes the iteration panic with the parser's panic for every input and every
  storage, the storage being left as it was: no input value is consulted and
  no clause is evaluated.
\<close>

theorem C7_tag_parser_panics_exactly_on_malformed_tags:
  "((\<exists>p. decodeTagFields clauses = Inl p) \<longleftrightarrow> malformed clauses)
   \<and> (sfTag sf = Some tag \<and> malformed (Split tag (CHR '','')) \<longrightarrow>
        (\<exists>p. decodeTagFields (Split tag (CHR '','')) = Inl p
             \<and> (\<forall>inputData st. validateField rt inputData i sf st = (Panic p, st))))"
proof (intro conjI impI)
  show "(\<exists>p. decodeTagFields clauses = Inl p) \<longleftrightarrow> malformed clauses"
    by (rule decodeTagFields_panics_iff)
next
  assume a: "sfTag sf = Some tag \<and> malformed (Split tag (CHR '',''))"
  then obtain p where p: "decodeTagFields (Split tag (CHR '','')) = Inl p"
    using decodeTagFields_panics_iff by blast
  with a have "\<forall>inputData st. validateField rt inputData i sf st = (Panic p, st)"
    by (simp add: validateField_malformed)
  with p show "\<exists>p. decodeTagFields (Split tag (CHR '','')) = Inl p
             \<and> (\<forall>inputData st. validateField rt inputData i sf st = (Panic p, st))"
    by blast
qed

text \<open>C7 on a tag that names \<open>min\<close> twice.\<close>

theorem C7_tag_parser_panics_exactly_on_malformed_tags_witness:
  "malformed (Split ''name=a,min=1,min=2'' (CHR '',''))
   \<and> decodeTagFields (Split ''name=a,min=1,min=2'' (CHR '','')) = Inl (TagFieldAlreadyDefined ''min'')
   \<and> validateField scenarioRuntime (map_of [(''a'', JNumber 5)]) 0
        \<lparr>sfName = ''A'', sfTag = Some ''name=a,min=1,min=2''\<rparr> (allFields (VInt 0))
      = (Panic (TagFieldAlreadyDefined ''min''), allFields (VInt 0))"
proof -
  have dec: "decodeTagFields (Split ''name=a,min=1,min=2'' (CHR '','')) =
               Inl (TagFieldAlreadyDefined ''min'')"
    by code_simp
  have tag: "sfTag \<lparr>sfName = ''A'', sfTag = Some ''name=a,min=1,min=2''\<rparr>
               = Some ''name=a,min=1,min=2''"
    by simp
  note inst = C7_tag_parser_panics_exactly_on_malformed_tags
    [of "Split ''name=a,min=1,min=2'' (CHR '','')"
        "\<lparr>sfName = ''A'', sfTag = Some ''name=a,min=1,min=2''\<rparr>" "''name=a,min=1,min=2''"
        scenarioRuntime 0]
  from inst dec have m: "malformed (Split ''name=a,min=1,min=2'' (CHR '',''))"
    by blast
  with inst tag dec have "validateField scenarioRuntime (map_of [(''a'', JNumber 5)]) 0
        \<lparr>sfName = ''A'', sfTag = Some ''name=a,min=1,min=2''\<rparr> (allFields (VInt 0))
      = (Panic (TagFieldAlreadyDefined ''min''), allFields (VInt 0))"
    by auto
  with m dec show ?thesis by blast
qed

subsection \<open>C8: the name of a parsed tag\<close>

text \<open>
  C8 says that every tag the parser accepts gives a non-empty name. The
  parser rejects a \<open>name\<close> clause with an empty value, and does not notice
  that there is no \<open>name\<close> clause at all: the tag \<open>required,min=3\<close> is
  accepted with the empty name.
\<close>

theorem C8_tag_without_name_accepted:
  "decodeTagFields (Split ''required,min=3'' (CHR '','')) =
     Inr \<lparr>Name = [], Required = True, Fields = [(''min'', ''3'')]\<rparr>"
  by code_simp

subsection \<open>C9: the numeric kinds\<close>

text \<open>
  C9 says that \<open>min\<close> and \<open>max\<close> are evaluated on every signed, unsigned and
  floating-point field. The switch on the kind lists \<open>Int\<close>, \<open>Int8\<close>,
  \<open>Int32\<close>, \<open>Int64\<close> and the same four unsigned kinds: \<open>Int16\<close> and
  \<open>Uint16\<close> are missing and fall into the branch for non-numeric fields.
\<close>

theorem C9_min_on_int16_panics:
  "fst (Validate scenarioRuntime (map_of [(''n'', JNumber 5)])
          (oneField ''N'' ''name=n,min=0'' (VInt16 0))) = Panic (NotIntegerOrFloat ''min'' ''N'')
   \<and> fst (Validate scenarioRuntime (map_of [(''n'', JNumber 5)])
          (oneField ''N'' ''name=n,max=9'' (VUint16 0))) = Panic (NotIntegerOrFloat ''max'' ''N'')"
  by code_simp

subsection \<open>C10: fields left alone\<close>

text \<open>
  C10: for a field without a tag, or with a tag that parses, does not require
  the field and has no default, and whose key is absent, the iteration goes
  on to the next field with the storage as it was; and after the whole call
  such a field of a struct (whose field names are distinct) holds what it
  held before, however the call ends.
\<close>

theorem C10_absent_optional_field_untouched:
  "(leftAlone inputData sf \<longrightarrow> validateField rt inputData i sf st = (Ok, st))
   \<and> (leftAlone inputData sf \<and> sf \<in> set sfs \<and> distinct (map sfName sfs) \<longrightarrow>
        readField (snd (Validate rt inputData (PtrToStruct sfs st))) (sfName sf)
          = Some (st (sfName sf)))"
proof (intro conjI impI)
  assume "leftAlone inputData sf"
  then show "validateField rt inputData i sf st = (Ok, st)"
    by (rule validateField_leftAlone)
next
  assume a: "leftAlone inputData sf \<and> sf \<in> set sfs \<and> distinct (map sfName sfs)"
  then have "\<forall>f \<in> set sfs. sfName f = sfName sf \<longrightarrow> f = sf"
    by (meson distinct_map inj_on_def)
  with a have "\<forall>f \<in> set sfs. sfName f = sfName sf \<longrightarrow> leftAlone inputData f"
    by blast
  from validateFrom_frame [OF this, of rt 0 st]
  show "readField (snd (Validate rt inputData (PtrToStruct sfs st))) (sfName sf)
          = Some (st (sfName sf))"
    by (auto split: prod.splits)
qed

text \<open>C10 on a struct with an untouched optional field, an untagged field and a decoded one.\<close>

theorem C10_absent_optional_field_untouched_witness:
  "leftAlone (map_of [(''age'', JNumber 30)]) \<lparr>sfName = ''Nick'', sfTag = Some ''name=nick,maxLen=8''\<rparr>
   \<and> leftAlone (map_of [(''age'', JNumber 30)]) \<lparr>sfName = ''Secret'', sfTag = None\<rparr>
   \<and> readField (snd (Validate scenarioRuntime (map_of [(''age'', JNumber 30)])
        (PtrToStruct
           [\<lparr>sfName = ''Nick'', sfTag = Some ''name=nick,maxLen=8''\<rparr>,
            \<lparr>sfName = ''Secret'', sfTag = None\<rparr>,
            \<lparr>sfName = ''Age'', sfTag = Some ''name=age''\<rparr>]
           ((allFields (VInt 0))(''Nick'' := VString ''previous nickname'')))))
        ''Nick''
      = Some (VString ''previous nickname'')"
proof -
  let ?nick = "\<lparr>sfName = ''Nick'', sfTag = Some ''name=nick,maxLen=8''\<rparr>"
  let ?sfs = "[?nick, \<lparr>sfName = ''Secret'', sfTag = None\<rparr>,
               \<lparr>sfName = ''Age'', sfTag = Some ''name=age''\<rparr>]"
  have la: "leftAlone (map_of [(''age'', JNumber 30)]) ?nick"
    by code_simp
  have la2: "leftAlone (map_of [(''age'', JNumber 30)]) \<lparr>sfName = ''Secret'', sfTag = None\<rparr>"
    by (simp add: leftAlone_def)
  have mem: "?nick \<in> set ?sfs" by simp
  have dist: "distinct (map sfName ?sfs)" by simp
  from C10_absent_optional_field_untouched
         [of "map_of [(''age'', JNumber 30)]" ?nick scenarioRuntime 0
             "(allFields (VInt 0))(''Nick'' := VString ''previous nickname'')" ?sfs]
       la mem dist
  have "readField (snd (Validate scenarioRuntime (map_of [(''age'', JNumber 30)])
          (PtrToStruct ?sfs ((allFields (VInt 0))(''Nick'' := VString ''previous nickname'')))))
          ''Nick'' = Some (VString ''previous nickname'')"
    by (simp del: Validate.simps)
  with la la2 show ?thesis by blast
qed

end
